theory Spec2Isabelle
  imports Main "HOL-Library.AList"
begin

section \<open>The settings module \<open>pelicanconf.py\<close>\<close>

text \<open>
  The repository is one Python module of top-level statements: a \<open>from __future__ import\<close>
  and nineteen assignments of literal expressions to names. The module is modelled as
  the list of its statements, in source order, together with the evaluation Python gives
  them: each statement updates the module namespace, an ordered dictionary from names to
  values.
\<close>

subsection \<open>Values\<close>

text \<open>
  The Python values that occur: \<open>None\<close>, booleans, integers, text, tuples and dicts, and the
  feature object a \<open>__future__\<close> import binds. With \<open>unicode_literals\<close> a string literal is a
  sequence of code points; every code point of this module is below 256 (the largest is
  U+00E9 in the author's name), so \<open>char\<close> holds each one and \<open>length\<close> counts code points.
  A dict is an association list in insertion order, as Python keeps it.
\<close>

datatype pyval =
    PyNone
  | PyBool bool
  | PyInt int
  | PyStr string
  | PyTuple "pyval list"
  | PyDict "(pyval \<times> pyval) list"
  | PyFeature string

datatype error = NameError string | AttributeError string | TypeError

type_synonym namespace = "(string \<times> pyval) list"

subsection \<open>Expressions and statements\<close>

text \<open>
  The right-hand sides of the module are constants, tuple displays and one dict display.
  \<open>EName\<close> is Python's other atomic expression, a reference to a bound name: the module
  has none, which is what the statements about literal values below say.
\<close>

datatype expr =
    ENone
  | EBool bool
  | EInt int
  | EStr string
  | EName string
  | ETuple "expr list"
  | EDict "(expr \<times> expr) list"

datatype stmt =
    FutureImport string
  | Assign string expr

text \<open>Evaluation of a display runs left to right and stops at the first error.\<close>

fun sequence :: "(error + 'a) list \<Rightarrow> error + 'a list" where
  "sequence [] = Inr []"
| "sequence (Inl e # rs) = Inl e"
| "sequence (Inr v # rs) = (case sequence rs of Inl e \<Rightarrow> Inl e | Inr vs \<Rightarrow> Inr (v # vs))"

fun sequence_items :: "((error + 'a) \<times> (error + 'a)) list \<Rightarrow> error + ('a \<times> 'a) list" where
  "sequence_items [] = Inr []"
| "sequence_items ((Inl e, r) # rs) = Inl e"
| "sequence_items ((Inr k, Inl e) # rs) = Inl e"
| "sequence_items ((Inr k, Inr v) # rs) =
     (case sequence_items rs of Inl e \<Rightarrow> Inl e | Inr ps \<Rightarrow> Inr ((k, v) # ps))"

text \<open>
  A dict display inserts its items in order: a repeated key keeps its first position and
  takes the last value.
\<close>

definition dict_of :: "(pyval \<times> pyval) list \<Rightarrow> (pyval \<times> pyval) list" where
  "dict_of ps = foldl (\<lambda>d (k, v). AList.update k v d) [] ps"

primrec eval_expr :: "namespace \<Rightarrow> expr \<Rightarrow> error + pyval" where
  "eval_expr ns ENone = Inr PyNone"
| "eval_expr ns (EBool b) = Inr (PyBool b)"
| "eval_expr ns (EInt i) = Inr (PyInt i)"
| "eval_expr ns (EStr s) = Inr (PyStr s)"
| "eval_expr ns (EName x) =
     (case map_of ns x of None \<Rightarrow> Inl (NameError x) | Some v \<Rightarrow> Inr v)"
| "eval_expr ns (ETuple es) =
     (case sequence (map (eval_expr ns) es) of
        Inl e \<Rightarrow> Inl e
      | Inr vs \<Rightarrow> Inr (PyTuple vs))"
| "eval_expr ns (EDict kvs) =
     (case sequence_items (map (map_prod (eval_expr ns) (eval_expr ns)) kvs) of
        Inl e \<Rightarrow> Inl e
      | Inr ps \<Rightarrow> Inr (PyDict (dict_of ps)))"

text \<open>
  A statement binds one name in the namespace: an assignment binds the value of its
  right-hand side, \<open>from __future__ import f\<close> binds \<open>f\<close> to the feature object.
\<close>

fun exec_stmt :: "namespace \<Rightarrow> stmt \<Rightarrow> error + namespace" where
  "exec_stmt ns (FutureImport f) = Inr (AList.update f (PyFeature f) ns)"
| "exec_stmt ns (Assign x e) =
     (case eval_expr ns e of
        Inl err \<Rightarrow> Inl err
      | Inr v \<Rightarrow> Inr (AList.update x v ns))"

fun exec_module :: "namespace \<Rightarrow> stmt list \<Rightarrow> error + namespace" where
  "exec_module ns [] = Inr ns"
| "exec_module ns (s # ss) =
     (case exec_stmt ns s of
        Inl err \<Rightarrow> Inl err
      | Inr ns' \<Rightarrow> exec_module ns' ss)"

subsection \<open>The module\<close>

definition pelicanconf :: "stmt list" where
  "pelicanconf =
    [FutureImport ''unicode_literals'',
     Assign ''AUTHOR'' (EStr (''Jos'' @ [CHR 0xE9] @ '' San Gil'')),
     Assign ''SITENAME'' (EStr ''HATE THAT CODE''),
     Assign ''SITESUBTITLE'' (EStr (''by jos'' @ [CHR 0xE9] @ '' san gil'')),
     Assign ''SITEURL'' (EStr ''''),
     Assign ''PATH'' (EStr ''content''),
     Assign ''TIMEZONE'' (EStr ''Europe/Madrid''),
     Assign ''DEFAULT_LANG'' (EStr ''en''),
     Assign ''FEED_ALL_ATOM'' ENone,
     Assign ''CATEGORY_FEED_ATOM'' ENone,
     Assign ''TRANSLATION_FEED_ATOM'' ENone,
     Assign ''AUTHOR_FEED_ATOM'' ENone,
     Assign ''AUTHOR_FEED_RSS'' ENone,
     Assign ''GOOGLE_ANALYTICS'' (EStr ''UA-11146701-2''),
     Assign ''LINKS'' (ETuple
       [ETuple [EStr ''Pelican'', EStr ''http://getpelican.com/''],
        ETuple [EStr ''Python.org'', EStr ''http://python.org/''],
        ETuple [EStr ''Jinja2'', EStr ''http://jinja.pocoo.org/''],
        ETuple [EStr ''You can modify those links in your config file'', EStr ''#'']]),
     Assign ''SOCIAL'' (ETuple
       [ETuple [EStr ''You can add links in your config file'', EStr ''#''],
        ETuple [EStr ''Another social link'', EStr ''#'']]),
     Assign ''DEFAULT_PAGINATION'' (EInt 10),
     Assign ''DISPLAY_PAGES_ON_MENU'' (EBool False),
     Assign ''THEME'' (EStr ''themes/hatethatcode''),
     Assign ''DEFAUT_METADATA'' (EDict [(EStr ''status'', EStr ''draft'')])]"

text \<open>
  Loading the module runs its statements on the namespace it is given. A consumer reads a
  setting by its exact name from the namespace of a freshly loaded module; a name the
  module does not bind has no value (Python's \<open>AttributeError\<close>).
\<close>

definition load :: "namespace \<Rightarrow> error + namespace" where
  "load ns = exec_module ns pelicanconf"

definition setting_in :: "namespace \<Rightarrow> string \<Rightarrow> error + pyval" where
  "setting_in ns x =
     (case load ns of
        Inl err \<Rightarrow> Inl err
      | Inr ns' \<Rightarrow>
          (case map_of ns' x of None \<Rightarrow> Inl (AttributeError x) | Some v \<Rightarrow> Inr v))"

definition setting :: "string \<Rightarrow> error + pyval" where
  "setting x = setting_in [] x"

subsection \<open>What the properties speak of\<close>

text \<open>
  The fields of the configuration record are the assignments of the module, in order.
\<close>

fun assignments :: "stmt list \<Rightarrow> (string \<times> expr) list" where
  "assignments [] = []"
| "assignments (FutureImport f # ss) = assignments ss"
| "assignments (Assign x e # ss) = (x, e) # assignments ss"

text \<open>
  The names an expression reads when it is evaluated. An expression that reads none is
  built from constants alone.
\<close>

primrec reads :: "expr \<Rightarrow> string list" where
  "reads ENone = []"
| "reads (EBool b) = []"
| "reads (EInt i) = []"
| "reads (EStr s) = []"
| "reads (EName x) = [x]"
| "reads (ETuple es) = concat (map reads es)"
| "reads (EDict kvs) = concat (map (\<lambda>(a, b). a @ b) (map (map_prod reads reads) kvs))"

text \<open>
  The feed settings are the settings whose name contains \<open>FEED\<close> (Python's
  \<open>'FEED' in name\<close>), taken from the freshly loaded module.
\<close>

fun starts_with :: "string \<Rightarrow> string \<Rightarrow> bool" where
  "starts_with [] s = True"
| "starts_with (c # p) [] = False"
| "starts_with (c # p) (d # s) = (c = d \<and> starts_with p s)"

fun contains :: "string \<Rightarrow> string \<Rightarrow> bool" where
  "contains p [] = (p = [])"
| "contains p (c # s) = (starts_with p (c # s) \<or> contains p s)"

definition is_feed_name :: "string \<Rightarrow> bool" where
  "is_feed_name x = contains ''FEED'' x"

definition feed_settings :: "(string \<times> pyval) list" where
  "feed_settings =
     (case load [] of
        Inl err \<Rightarrow> []
      | Inr ns \<Rightarrow> filter (\<lambda>(x, v). is_feed_name x) ns)"

fun is_optional_str :: "pyval \<Rightarrow> bool" where
  "is_optional_str PyNone = True"
| "is_optional_str (PyStr s) = True"
| "is_optional_str v = False"

text \<open>A link entry is a tuple of exactly two strings, a label and a URL, neither empty.\<close>

fun is_link_entry :: "pyval \<Rightarrow> bool" where
  "is_link_entry (PyTuple [PyStr label, PyStr url]) = (label \<noteq> [] \<and> url \<noteq> [])"
| "is_link_entry v = False"

text \<open>
  Modelled from the spec: the set of content states of the external generator is not part
  of this repository; the spec names \<open>draft\<close> and \<open>published\<close> as its members.
\<close>

definition valid_statuses :: "string list" where
  "valid_statuses = [''draft'', ''published'']"

subsection \<open>After loading\<close>




section \<open>Loading\<close>

text \<open>
  Loading on any namespace succeeds and binds the twenty names of the module, in source
  order, over whatever the namespace held.
\<close>

lemma load_fresh:
  "load [] = Inr
    [(''unicode_literals'', PyFeature ''unicode_literals''),
     (''AUTHOR'', PyStr (''Jos'' @ [CHR 0xE9] @ '' San Gil'')),
     (''SITENAME'', PyStr ''HATE THAT CODE''),
     (''SITESUBTITLE'', PyStr (''by jos'' @ [CHR 0xE9] @ '' san gil'')),
     (''SITEURL'', PyStr ''''),
     (''PATH'', PyStr ''content''),
     (''TIMEZONE'', PyStr ''Europe/Madrid''),
     (''DEFAULT_LANG'', PyStr ''en''),
     (''FEED_ALL_ATOM'', PyNone),
     (''CATEGORY_FEED_ATOM'', PyNone),
     (''TRANSLATION_FEED_ATOM'', PyNone),
     (''AUTHOR_FEED_ATOM'', PyNone),
     (''AUTHOR_FEED_RSS'', PyNone),
     (''GOOGLE_ANALYTICS'', PyStr ''UA-11146701-2''),
     (''LINKS'', PyTuple
       [PyTuple [PyStr ''Pelican'', PyStr ''http://getpelican.com/''],
        PyTuple [PyStr ''Python.org'', PyStr ''http://python.org/''],
        PyTuple [PyStr ''Jinja2'', PyStr ''http://jinja.pocoo.org/''],
        PyTuple [PyStr ''You can modify those links in your config file'', PyStr ''#'']]),
     (''SOCIAL'', PyTuple
       [PyTuple [PyStr ''You can add links in your config file'', PyStr ''#''],
        PyTuple [PyStr ''Another social link'', PyStr ''#'']]),
     (''DEFAULT_PAGINATION'', PyInt 10),
     (''DISPLAY_PAGES_ON_MENU'', PyBool False),
     (''THEME'', PyStr ''themes/hatethatcode''),
     (''DEFAUT_METADATA'', PyDict [(PyStr ''status'', PyStr ''draft'')])]"
  by (simp add: load_def pelicanconf_def dict_of_def)

lemma load_any:
  "load ns = Inr
    (AList.update ''DEFAUT_METADATA'' (PyDict [(PyStr ''status'', PyStr ''draft'')])
    (AList.update ''THEME'' (PyStr ''themes/hatethatcode'')
    (AList.update ''DISPLAY_PAGES_ON_MENU'' (PyBool False)
    (AList.update ''DEFAULT_PAGINATION'' (PyInt 10)
    (AList.update ''SOCIAL'' (PyTuple
       [PyTuple [PyStr ''You can add links in your config file'', PyStr ''#''],
        PyTuple [PyStr ''Another social link'', PyStr ''#'']])
    (AList.update ''LINKS'' (PyTuple
       [PyTuple [PyStr ''Pelican'', PyStr ''http://getpelican.com/''],
        PyTuple [PyStr ''Python.org'', PyStr ''http://python.org/''],
        PyTuple [PyStr ''Jinja2'', PyStr ''http://jinja.pocoo.org/''],
        PyTuple [PyStr ''You can modify those links in your config file'', PyStr ''#'']])
    (AList.update ''GOOGLE_ANALYTICS'' (PyStr ''UA-11146701-2'')
    (AList.update ''AUTHOR_FEED_RSS'' PyNone
    (AList.update ''AUTHOR_FEED_ATOM'' PyNone
    (AList.update ''TRANSLATION_FEED_ATOM'' PyNone
    (AList.update ''CATEGORY_FEED_ATOM'' PyNone
    (AList.update ''FEED_ALL_ATOM'' PyNone
    (AList.update ''DEFAULT_LANG'' (PyStr ''en'')
    (AList.update ''TIMEZONE'' (PyStr ''Europe/Madrid'')
    (AList.update ''PATH'' (PyStr ''content'')
    (AList.update ''SITEURL'' (PyStr [])
    (AList.update ''SITESUBTITLE'' (PyStr (''by jos'' @ [CHR 0xE9] @ '' san gil''))
    (AList.update ''SITENAME'' (PyStr ''HATE THAT CODE'')
    (AList.update ''AUTHOR'' (PyStr (''Jos'' @ [CHR 0xE9] @ '' San Gil''))
    (AList.update ''unicode_literals'' (PyFeature ''unicode_literals'')
      ns))))))))))))))))))))"
  by (simp add: load_def pelicanconf_def dict_of_def)


lemma assignments_pelicanconf:
  "assignments pelicanconf =
    [(''AUTHOR'', EStr (''Jos'' @ [CHR 0xE9] @ '' San Gil'')),
     (''SITENAME'', EStr ''HATE THAT CODE''),
     (''SITESUBTITLE'', EStr (''by jos'' @ [CHR 0xE9] @ '' san gil'')),
     (''SITEURL'', EStr []),
     (''PATH'', EStr ''content''),
     (''TIMEZONE'', EStr ''Europe/Madrid''),
     (''DEFAULT_LANG'', EStr ''en''),
     (''FEED_ALL_ATOM'', ENone),
     (''CATEGORY_FEED_ATOM'', ENone),
     (''TRANSLATION_FEED_ATOM'', ENone),
     (''AUTHOR_FEED_ATOM'', ENone),
     (''AUTHOR_FEED_RSS'', ENone),
     (''GOOGLE_ANALYTICS'', EStr ''UA-11146701-2''),
     (''LINKS'', ETuple
       [ETuple [EStr ''Pelican'', EStr ''http://getpelican.com/''],
        ETuple [EStr ''Python.org'', EStr ''http://python.org/''],
        ETuple [EStr ''Jinja2'', EStr ''http://jinja.pocoo.org/''],
        ETuple [EStr ''You can modify those links in your config file'', EStr ''#'']]),
     (''SOCIAL'', ETuple
       [ETuple [EStr ''You can add links in your config file'', EStr ''#''],
        ETuple [EStr ''Another social link'', EStr ''#'']]),
     (''DEFAULT_PAGINATION'', EInt 10),
     (''DISPLAY_PAGES_ON_MENU'', EBool False),
     (''THEME'', EStr ''themes/hatethatcode''),
     (''DEFAUT_METADATA'', EDict [(EStr ''status'', EStr ''draft'')])]"
  by (simp add: pelicanconf_def)







lemma setting_fresh:
  "setting x =
     (case map_of
        [(''unicode_literals'', PyFeature ''unicode_literals''),
         (''AUTHOR'', PyStr (''Jos'' @ [CHR 0xE9] @ '' San Gil'')),
         (''SITENAME'', PyStr ''HATE THAT CODE''),
         (''SITESUBTITLE'', PyStr (''by jos'' @ [CHR 0xE9] @ '' san gil'')),
         (''SITEURL'', PyStr ''''),
         (''PATH'', PyStr ''content''),
         (''TIMEZONE'', PyStr ''Europe/Madrid''),
         (''DEFAULT_LANG'', PyStr ''en''),
         (''FEED_ALL_ATOM'', PyNone),
         (''CATEGORY_FEED_ATOM'', PyNone),
         (''TRANSLATION_FEED_ATOM'', PyNone),
         (''AUTHOR_FEED_ATOM'', PyNone),
         (''AUTHOR_FEED_RSS'', PyNone),
         (''GOOGLE_ANALYTICS'', PyStr ''UA-11146701-2''),
         (''LINKS'', PyTuple
           [PyTuple [PyStr ''Pelican'', PyStr ''http://getpelican.com/''],
            PyTuple [PyStr ''Python.org'', PyStr ''http://python.org/''],
            PyTuple [PyStr ''Jinja2'', PyStr ''http://jinja.pocoo.org/''],
            PyTuple [PyStr ''You can modify those links in your config file'', PyStr ''#'']]),
         (''SOCIAL'', PyTuple
           [PyTuple [PyStr ''You can add links in your config file'', PyStr ''#''],
            PyTuple [PyStr ''Another social link'', PyStr ''#'']]),
         (''DEFAULT_PAGINATION'', PyInt 10),
         (''DISPLAY_PAGES_ON_MENU'', PyBool False),
         (''THEME'', PyStr ''themes/hatethatcode''),
         (''DEFAUT_METADATA'', PyDict [(PyStr ''status'', PyStr ''draft'')])] x of
        None \<Rightarrow> Inl (AttributeError x)
      | Some v \<Rightarrow> Inr v)"
  by (simp add: setting_def setting_in_def load_fresh)

section \<open>The settings\<close>

text \<open>
  C1. The module binds the default metadata under the name \<open>DEFAUT_METADATA\<close>, and binds
  nothing under \<open>DEFAULT_METADATA\<close>: a consumer that looks the setting up by the exact
  name \<open>DEFAULT_METADATA\<close> gets no value.
\<close>

theorem DEFAUT_METADATA_misspelt:
  "setting ''DEFAUT_METADATA'' = Inr (PyDict [(PyStr ''status'', PyStr ''draft'')]) \<and>
   setting ''DEFAULT_METADATA'' = Inl (AttributeError ''DEFAULT_METADATA'') \<and>
   ''DEFAULT_METADATA'' \<notin> set (map fst (assignments pelicanconf))"
  by (simp add: setting_fresh assignments_pelicanconf)

text \<open>
  C2, as the module has it. There are exactly five feed settings, \<open>FEED_ALL_ATOM\<close>,
  \<open>CATEGORY_FEED_ATOM\<close>, \<open>TRANSLATION_FEED_ATOM\<close>, \<open>AUTHOR_FEED_ATOM\<close> and
  \<open>AUTHOR_FEED_RSS\<close>, and the value of each is \<open>None\<close> or a string.
\<close>

theorem feed_settings_five:
  "map fst feed_settings =
     [''FEED_ALL_ATOM'', ''CATEGORY_FEED_ATOM'', ''TRANSLATION_FEED_ATOM'',
      ''AUTHOR_FEED_ATOM'', ''AUTHOR_FEED_RSS''] \<and>
   length feed_settings = 5 \<and>
   list_all is_optional_str (map snd feed_settings)"
  by (simp add: feed_settings_def load_fresh is_feed_name_def)

text \<open>
  C2, as stated: the feed settings are not four in number, so "exactly four feed settings,
  each an optional string" does not hold of the module.
\<close>

theorem feed_settings_not_four:
  "\<not> (length feed_settings = 4 \<and> list_all is_optional_str (map snd feed_settings))"
  by (simp add: feed_settings_def load_fresh is_feed_name_def)

text \<open>
  C3. Each of the five feed settings \<open>FEED_ALL_ATOM\<close>, \<open>CATEGORY_FEED_ATOM\<close>,
  \<open>TRANSLATION_FEED_ATOM\<close>, \<open>AUTHOR_FEED_ATOM\<close> and \<open>AUTHOR_FEED_RSS\<close> is bound to
  \<open>None\<close>, which is one of the two admitted forms (\<open>None\<close> or a string).
\<close>

theorem feed_settings_None:
  "setting ''FEED_ALL_ATOM'' = Inr PyNone \<and>
   setting ''CATEGORY_FEED_ATOM'' = Inr PyNone \<and>
   setting ''TRANSLATION_FEED_ATOM'' = Inr PyNone \<and>
   setting ''AUTHOR_FEED_ATOM'' = Inr PyNone \<and>
   setting ''AUTHOR_FEED_RSS'' = Inr PyNone \<and>
   is_optional_str PyNone"
  by (simp add: setting_fresh)

text \<open>
  C4. \<open>LINKS\<close> and \<open>SOCIAL\<close> are tuples, and every entry of either is a pair of a label
  and a URL that are both non-empty strings.
\<close>

theorem link_entries_are_pairs:
  "\<exists>ls ss. setting ''LINKS'' = Inr (PyTuple ls) \<and> setting ''SOCIAL'' = Inr (PyTuple ss) \<and>
     (\<forall>e \<in> set ls \<union> set ss. is_link_entry e)"
  by (simp add: setting_fresh)

theorem link_entries_are_pairs_witness:
  "PyTuple [PyStr ''Another social link'', PyStr ''#''] \<in> set
     [PyTuple [PyStr ''You can add links in your config file'', PyStr ''#''],
      PyTuple [PyStr ''Another social link'', PyStr ''#'']] \<and>
   is_link_entry (PyTuple [PyStr ''Another social link'', PyStr ''#''])"
proof -
  from link_entries_are_pairs obtain ls ss where
    s: "setting ''SOCIAL'' = Inr (PyTuple ss)" and
    a: "\<forall>e \<in> set ls \<union> set ss. is_link_entry e"
    by blast
  from s have "ss =
     [PyTuple [PyStr ''You can add links in your config file'', PyStr ''#''],
      PyTuple [PyStr ''Another social link'', PyStr ''#'']]"
    by (simp add: setting_fresh)
  with a show ?thesis
    by simp
qed

text \<open>
  C5. The pagination size \<open>DEFAULT_PAGINATION\<close> is an integer, it is 10, and it is positive.
\<close>

theorem DEFAULT_PAGINATION_positive:
  "\<exists>n. setting ''DEFAULT_PAGINATION'' = Inr (PyInt n) \<and> n = 10 \<and> 0 < n"
  by (simp add: setting_fresh)

text \<open>
  C6. The default metadata is a dict with the single key \<open>status\<close>; the value under that
  key is the string \<open>draft\<close>, which is one of the valid content states.
\<close>

theorem default_metadata_status:
  "\<exists>d s. setting ''DEFAUT_METADATA'' = Inr (PyDict d) \<and>
     map fst d = [PyStr ''status''] \<and>
     map_of d (PyStr ''status'') = Some (PyStr s) \<and>
     s = ''draft'' \<and> s \<in> set valid_statuses"
  by (simp add: setting_fresh valid_statuses_def)




text \<open>
  C9. \<open>SITEURL\<close> is the empty string: a consumer that takes it as the base of absolute
  links gets a base of length 0.
\<close>

theorem SITEURL_empty:
  "\<exists>u. setting ''SITEURL'' = Inr (PyStr u) \<and> u = '''' \<and> length u = 0"
  by (simp add: setting_fresh)

text \<open>
  C10. Loading the module is deterministic. No right-hand side reads a name, and on any
  two namespaces loading succeeds and gives every field of the module the same value.
\<close>

theorem load_deterministic:
  "concat (map (\<lambda>(x, e). reads e) (assignments pelicanconf)) = [] \<and>
   (\<exists>r r'. load ns = Inr r \<and> load ns' = Inr r' \<and>
      map (map_of r) (map fst (assignments pelicanconf)) =
      map (map_of r') (map fst (assignments pelicanconf)))"
  unfolding load_any assignments_pelicanconf
  by (simp add: update_conv')

end
